theory Spec2Isabelle
  imports Main "HOL-Library.AList"
begin

section \<open>Python values\<close>

text \<open>
  Exceptions the handlers of \<^verbatim>\<open>bot.py\<close> can raise in the modelled code paths.
\<close>

datatype py_error = KeyError | ValueError | IndexError

text \<open>
  A Python \<^verbatim>\<open>dict\<close> is an association list in insertion order: \<open>map_of d k\<close> is
  \<^verbatim>\<open>d.get(k)\<close>, \<open>AList.update k v d\<close> is \<^verbatim>\<open>d[k] = v\<close> (an existing key keeps its place,
  a new key goes to the end).
\<close>

type_synonym ('k, 'v) dict = "('k \<times> 'v) list"

definition dict_get_default :: "('k, 'v) dict \<Rightarrow> 'k \<Rightarrow> 'v \<Rightarrow> 'v" where
  "dict_get_default d k v = (case map_of d k of None \<Rightarrow> v | Some x \<Rightarrow> x)"

text \<open>
  Text is a list of bytes (UTF-8); the emoji of the source's literals are written as their bytes.
  \<^verbatim>\<open>str.startswith\<close> on UTF-8 text is the prefix test on the bytes.
\<close>

definition startswith :: "string \<Rightarrow> string \<Rightarrow> bool" where
  "startswith s p = (take (length p) s = p)"

section \<open>The stored record sets\<close>

text \<open>
  A JSON file of the bot is absent, holds a complete document, or holds what an interrupted
  \<^verbatim>\<open>json.dump\<close> left of a document: an incomplete text that \<^verbatim>\<open>json.load\<close> rejects.
\<close>

datatype 'a json_file = Absent | Intact 'a | Partial 'a

text \<open>
  What happens in \<^verbatim>\<open>with open(path, 'w') as f: json.dump(data, f)\<close>: the whole document is
  written, or \<^verbatim>\<open>open\<close> raises before the file is touched, or the file has been opened (and
  so truncated) and the dump stops before the end. Every \<^verbatim>\<open>save_*\<close> of the source
  catches the exception and logs it.
\<close>

datatype write_outcome = WriteOk | OpenFails | DumpFails

fun write_json :: "write_outcome \<Rightarrow> 'a \<Rightarrow> 'a json_file \<Rightarrow> 'a json_file" where
  "write_json WriteOk data f = Intact data"
| "write_json OpenFails data f = f"
| "write_json DumpFails data f = Partial data"

text \<open>One strike entry: the dict with keys \<^verbatim>\<open>tipo\<close>, \<^verbatim>\<open>motivo\<close>, \<^verbatim>\<open>fecha\<close>, \<^verbatim>\<open>autor\<close>.\<close>

record strike =
  strike_tipo :: string
  strike_motivo :: string
  strike_fecha :: string
  strike_autor :: string

text \<open>
  One suggestion record. The keys \<^verbatim>\<open>reviewed_by\<close>, \<^verbatim>\<open>reviewed_at\<close>, \<^verbatim>\<open>moved_to_results\<close> and
  \<^verbatim>\<open>final_votes\<close> (upvotes, downvotes) are absent until a review writes them.
\<close>

record suggestion =
  sug_user_id :: int
  sug_user_name :: string
  sug_suggestion :: string
  sug_status :: string
  sug_created_at :: string
  sug_channel_id :: int
  sug_reviewed_by :: "int option"
  sug_reviewed_at :: "string option"
  sug_moved_to_results :: "bool option"
  sug_final_votes :: "(int \<times> int) option"

text \<open>One ticket record; \<^verbatim>\<open>closed_by\<close> and \<^verbatim>\<open>closed_at\<close> are absent until the ticket is closed.\<close>

record ticket =
  ticket_number :: int
  ticket_creator_id :: int
  ticket_creator_name :: string
  ticket_motivo :: string
  ticket_created_at :: string
  ticket_status :: string
  ticket_messages :: "string list"
  ticket_closed_by :: "int option"
  ticket_closed_at :: "string option"

text \<open>The document of \<^verbatim>\<open>tickets.json\<close>: the keys \<^verbatim>\<open>counter\<close> and \<^verbatim>\<open>tickets\<close>, read with \<^verbatim>\<open>data.get\<close>.\<close>

record tickets_json =
  json_counter :: "int option"
  json_tickets :: "(string, ticket) dict option"

text \<open>A message on the platform, as far as the handlers look at it.\<close>

record posted_message =
  pm_reactions :: "(string \<times> int) list"
  pm_embeds :: nat

text \<open>
  The state the handlers work on: the attributes of the \<^verbatim>\<open>ReminderBot\<close> object, the four JSON
  files, and the part of the platform the handlers read: the channels \<^verbatim>\<open>get_channel\<close> finds
  (id and name) and the messages \<^verbatim>\<open>fetch_message\<close> finds (by channel id and message id).
\<close>

record world =
  message_counters :: "(int, int) dict"
  suggestions_command_counter :: int
  help_message_counter :: int
  ticket_counter :: int
  counter_file :: "(string, int) dict json_file"
  strikes_file :: "(string, strike list) dict json_file"
  suggestions_file :: "(string, suggestion) dict json_file"
  tickets_file :: "tickets_json json_file"
  channels :: "(int, string) dict"
  messages :: "(int \<times> int, posted_message) dict"

text \<open>
  The acting user and the channel of a slash command (\<^verbatim>\<open>interaction.user\<close>,
  \<^verbatim>\<open>interaction.channel\<close>).
\<close>

record interaction =
  user_id :: int
  user_display_name :: string
  user_roles :: "string list"
  channel_id :: int
  channel_name :: string

section \<open>Integers as text\<close>

text \<open>\<^verbatim>\<open>str(n)\<close> for an integer: the decimal digits, with a minus sign when negative.\<close>

definition digit_char :: "nat \<Rightarrow> char" where
  "digit_char d = char_of (48 + d)"

fun str_nat :: "nat \<Rightarrow> string" where
  "str_nat n = (if n < 10 then [digit_char n] else str_nat (n div 10) @ [digit_char (n mod 10)])"

declare str_nat.simps [simp del]

definition str_int :: "int \<Rightarrow> string" where
  "str_int i = (if i < 0 then CHR ''-'' # str_nat (nat (- i)) else str_nat (nat i))"

text \<open>
  The format \<^verbatim>\<open>{n:04d}\<close>: at least four characters, zeros between the sign and the digits.
\<close>

definition zero_pad :: "nat \<Rightarrow> string \<Rightarrow> string" where
  "zero_pad width s = replicate (width - length s) CHR ''0'' @ s"

definition format_04d :: "int \<Rightarrow> string" where
  "format_04d i = (if i < 0 then CHR ''-'' # zero_pad 3 (str_nat (nat (- i)))
                   else zero_pad 4 (str_nat (nat i)))"

text \<open>
  Python's built-in \<^verbatim>\<open>int\<close> on text is a parameter \<open>py_int\<close> of the functions that call it
  (\<open>None\<close> is its \<^verbatim>\<open>ValueError\<close>): what it accepts depends on the interpreter, on the decimal
  digits of its Unicode database and on its limit for the number of digits.
\<close>

type_synonym to_int = "string \<Rightarrow> int option"




section \<open>What a handler sends\<close>

text \<open>The five texts \<^verbatim>\<open>check_strike_limits\<close> returns, in the order of its branches.\<close>

datatype warning_message =
    PosibleDespidoDirecto
  | PosibleDespidoLeves
  | PosibleDespidoModerados
  | AdvertenciaLeves
  | AdvertenciaModerados

text \<open>The answers given through \<^verbatim>\<open>interaction.response.send_message\<close>, one per text or embed.\<close>

datatype reply =
    StrikeMissingArguments
  | StrikeAdded strike "warning_message option"
  | NoStrikesToRemove
  | StrikeRemoved strike
  | SuggestNoPermission
  | SuggestionNotFound
  | OriginalMessageNotFound
  | SuggestionAccepted
  | SuggestionDenied
  | SuggestAcceptError
  | SuggestDenyError
  | TicketCreated int int
  | TicketCreateError
  | CloseNoPermission
  | NotTicketChannel
  | TicketNotFound
  | TicketClosed
  | TicketCloseError

text \<open>The messages the bot posts in channels.\<close>

datatype sent =
    ReminderMessage
  | HelpMessage
  | WelcomeMessage int
  | GoodbyeMessage int
  | WelcomeSent
  | GoodbyeSent
  | CommandsOnlyWarning int
  | AdminsOnlyWarning int
  | ReviewedSuggestion string int int int
  | TicketWelcome int int string
  | TranscriptSummary ticket nat
  | TranscriptFile int "string list"

text \<open>
  The platform calls of a handler, in the order it makes them: a reply to the interaction (with
  its \<^verbatim>\<open>ephemeral\<close> flag), \<^verbatim>\<open>channel.send\<close>, \<^verbatim>\<open>message.delete\<close> (channel and message id),
  the deletion of a warning ten seconds after it was sent, \<^verbatim>\<open>message.edit\<close>,
  \<^verbatim>\<open>create_text_channel\<close> and \<^verbatim>\<open>channel.delete\<close>.
\<close>

datatype effect =
    Reply reply bool
  | Send int sent
  | Delete int int
  | DeleteWarningLater int
  | Edit int int sent
  | CreateChannel string
  | DeleteChannel int

section \<open>Loading and saving\<close>

text \<open>
  The state after \<^verbatim>\<open>__init__\<close> when no file exists yet: all counters zero, no channel counters.
\<close>

definition fresh_world :: world where
  "fresh_world = \<lparr>message_counters = [], suggestions_command_counter = 0,
     help_message_counter = 0, ticket_counter = 0, counter_file = Absent, strikes_file = Absent,
     suggestions_file = Absent, tickets_file = Absent, channels = [], messages = []\<rparr>"

text \<open>\<^verbatim>\<open>save_counters\<close> writes \<^verbatim>\<open>{str(k): v for k, v in self.message_counters.items()}\<close>.\<close>

definition save_counters :: "write_outcome \<Rightarrow> world \<Rightarrow> world" where
  "save_counters io w =
     w\<lparr>counter_file := write_json io (map (\<lambda>(k, v). (str_int k, v)) (message_counters w))
                          (counter_file w)\<rparr>"

definition load_suggestions :: "world \<Rightarrow> (string, suggestion) dict" where
  "load_suggestions w =
     (case suggestions_file w of Absent \<Rightarrow> [] | Intact data \<Rightarrow> data | Partial _ \<Rightarrow> [])"

definition save_suggestions ::
  "write_outcome \<Rightarrow> (string, suggestion) dict \<Rightarrow> world \<Rightarrow> world" where
  "save_suggestions io suggestions_data w =
     w\<lparr>suggestions_file := write_json io suggestions_data (suggestions_file w)\<rparr>"

text \<open>
  \<^verbatim>\<open>load_tickets\<close> returns the tickets and, when the file exists and parses, sets
  \<^verbatim>\<open>self.ticket_counter\<close> to the stored counter.
\<close>

definition load_tickets :: "world \<Rightarrow> (string, ticket) dict \<times> world" where
  "load_tickets w =
     (case tickets_file w of
        Absent \<Rightarrow> ([], w)
      | Intact data \<Rightarrow>
          (case json_tickets data of None \<Rightarrow> [] | Some tickets \<Rightarrow> tickets,
           w\<lparr>ticket_counter := (case json_counter data of None \<Rightarrow> 0 | Some c \<Rightarrow> c)\<rparr>)
      | Partial _ \<Rightarrow> ([], w))"

definition save_tickets :: "write_outcome \<Rightarrow> (string, ticket) dict \<Rightarrow> world \<Rightarrow> world" where
  "save_tickets io tickets_data w =
     w\<lparr>tickets_file := write_json io
         \<lparr>json_counter = Some (ticket_counter w), json_tickets = Some tickets_data\<rparr>
         (tickets_file w)\<rparr>"

section \<open>Access gate\<close>

text \<open>
  The non-ASCII literals of \<^verbatim>\<open>bot.py\<close> are written with the bytes they have in the file. The
  prefix of the two decorated role names is \<^verbatim>\<open>c4 9f c5 b8 e2 80 98 e2 80 98\<close>.
\<close>

definition crown :: string where
  "crown = [CHR 0xC4, CHR 0x9F, CHR 0xC5, CHR 0xB8, CHR 0xE2, CHR 0x80, CHR 0x98,
            CHR 0xE2, CHR 0x80, CHR 0x98]"

definition required_roles :: "string list" where
  "required_roles = [''Gerente'', ''Subgerente'', crown @ '' Gerente'', crown @ '' Subgerente'']"

definition has_required_role :: "string list \<Rightarrow> bool" where
  "has_required_role roles = list_ex (\<lambda>role. role \<in> set roles) required_roles"

section \<open>Strikes\<close>

text \<open>The values of \<^verbatim>\<open>tipo\<close> the slash command offers: \<^verbatim>\<open>Literal["leve", "moderado", "grave"]\<close>.\<close>

definition severities :: "string list" where
  "severities = [''leve'', ''moderado'', ''grave'']"


definition load_strikes :: "world \<Rightarrow> (string, strike list) dict" where
  "load_strikes w = (case strikes_file w of Absent \<Rightarrow> [] | Intact data \<Rightarrow> data | Partial _ \<Rightarrow> [])"

definition save_strikes :: "write_outcome \<Rightarrow> (string, strike list) dict \<Rightarrow> world \<Rightarrow> world" where
  "save_strikes io strikes_data w = w\<lparr>strikes_file := write_json io strikes_data (strikes_file w)\<rparr>"

text \<open>
  \<^verbatim>\<open>count_strikes\<close>: the loop \<^verbatim>\<open>for strike in user_strikes: count[strike["tipo"]] += 1\<close> over
  the dict that starts with the three keys at zero; a \<^verbatim>\<open>tipo\<close> that is not a key raises.
\<close>

fun count_strikes_loop :: "strike list \<Rightarrow> (string, int) dict \<Rightarrow> py_error + (string, int) dict" where
  "count_strikes_loop [] count = Inr count"
| "count_strikes_loop (s # rest) count =
     (case map_of count (strike_tipo s) of
        None \<Rightarrow> Inl KeyError
      | Some n \<Rightarrow> count_strikes_loop rest (AList.update (strike_tipo s) (n + 1) count))"

definition count_strikes :: "strike list \<Rightarrow> py_error + (string, int) dict" where
  "count_strikes user_strikes =
     count_strikes_loop user_strikes [(''leve'', 0), (''moderado'', 0), (''grave'', 0)]"

definition check_strike_limits :: "(string, int) dict \<Rightarrow> py_error + warning_message option" where
  "check_strike_limits strikes_count =
     (case map_of strikes_count ''leve'' of None \<Rightarrow> Inl KeyError | Some leve \<Rightarrow>
      case map_of strikes_count ''moderado'' of None \<Rightarrow> Inl KeyError | Some moderado \<Rightarrow>
      case map_of strikes_count ''grave'' of None \<Rightarrow> Inl KeyError | Some grave \<Rightarrow>
        Inr (if grave \<ge> 1 then Some PosibleDespidoDirecto
             else if leve \<ge> 5 then Some PosibleDespidoLeves
             else if moderado \<ge> 3 then Some PosibleDespidoModerados
             else if leve \<ge> 3 then Some AdvertenciaLeves
             else if moderado \<ge> 2 then Some AdvertenciaModerados
             else None))"

text \<open>
  \<^verbatim>\<open>_add_strike\<close>. The dict \<^verbatim>\<open>strikes_data\<close> is the one \<^verbatim>\<open>strike_command\<close> has just loaded; the
  handler changes it in place, so the model returns it. \<open>today\<close> is
  \<^verbatim>\<open>datetime.now().strftime("%Y-%m-%d")\<close>. The target member is only shown in the embed. The
  handler has no \<^verbatim>\<open>try\<close>: an exception of \<^verbatim>\<open>count_strikes\<close> leaves it after the save.
\<close>

definition add_strike ::
  "write_outcome \<Rightarrow> string \<Rightarrow> interaction \<Rightarrow> (string, strike list) dict \<Rightarrow> string \<Rightarrow>
   string option \<Rightarrow> string option \<Rightarrow> world \<Rightarrow>
   (py_error + effect list) \<times> (string, strike list) dict \<times> world" where
  "add_strike io today i strikes_data uid tipo motivo w =
     (case (tipo, motivo) of
        (Some t, Some m) \<Rightarrow>
          if t = [] \<or> m = [] then (Inr [Reply StrikeMissingArguments True], strikes_data, w)
          else
            let strikes_data1 = (if map_of strikes_data uid = None
                                 then AList.update uid [] strikes_data else strikes_data);
                new_strike = \<lparr>strike_tipo = t, strike_motivo = m, strike_fecha = today,
                              strike_autor = user_display_name i\<rparr>;
                user_strikes = dict_get_default strikes_data1 uid [] @ [new_strike];
                strikes_data2 = AList.update uid user_strikes strikes_data1;
                w1 = save_strikes io strikes_data2 w
            in (case count_strikes user_strikes of
                  Inl e \<Rightarrow> (Inl e, strikes_data2, w1)
                | Inr strikes_count \<Rightarrow>
                    (case check_strike_limits strikes_count of
                       Inl e \<Rightarrow> (Inl e, strikes_data2, w1)
                     | Inr warning \<Rightarrow>
                         (Inr [Reply (StrikeAdded new_strike warning) False], strikes_data2, w1)))
      | _ \<Rightarrow> (Inr [Reply StrikeMissingArguments True], strikes_data, w))"

text \<open>\<^verbatim>\<open>_remove_strike\<close>: \<^verbatim>\<open>strikes_data[user_id].pop()\<close> takes the last entry of the list.\<close>

definition remove_strike ::
  "write_outcome \<Rightarrow> interaction \<Rightarrow> (string, strike list) dict \<Rightarrow> string \<Rightarrow> world \<Rightarrow>
   effect list \<times> (string, strike list) dict \<times> world" where
  "remove_strike io i strikes_data uid w =
     (case map_of strikes_data uid of
        None \<Rightarrow> ([Reply NoStrikesToRemove True], strikes_data, w)
      | Some [] \<Rightarrow> ([Reply NoStrikesToRemove True], strikes_data, w)
      | Some (e # es) \<Rightarrow>
          let removed_strike = last (e # es);
              strikes_data1 = AList.update uid (butlast (e # es)) strikes_data;
              w1 = save_strikes io strikes_data1 w
          in ([Reply (StrikeRemoved removed_strike) False], strikes_data1, w1))"

text \<open>
  The specification's names for the outcomes of the escalation policy: \<^verbatim>\<open>POSIBLE DESPIDO DIRECTO\<close>
  is the direct termination risk, \<^verbatim>\<open>POSIBLE DESPIDO\<close> the termination risk, \<^verbatim>\<open>ADVERTENCIA\<close> the
  warning.
\<close>

datatype escalation = DirectTerminationRisk | TerminationRisk | Warning

fun escalation_of :: "warning_message \<Rightarrow> escalation" where
  "escalation_of PosibleDespidoDirecto = DirectTerminationRisk"
| "escalation_of PosibleDespidoLeves = TerminationRisk"
| "escalation_of PosibleDespidoModerados = TerminationRisk"
| "escalation_of AdvertenciaLeves = Warning"
| "escalation_of AdvertenciaModerados = Warning"


section \<open>Suggestions\<close>










section \<open>Tickets\<close>

text \<open>
  The prefix of a ticket channel's name, \<^verbatim>\<open>c4 9f c5 b8 c5 b8 c3 af c2 b8\<close> followed by
  \<^verbatim>\<open>-ticket-\<close>.
\<close>

definition ticket_prefix :: string where
  "ticket_prefix = [CHR 0xC4, CHR 0x9F, CHR 0xC5, CHR 0xB8, CHR 0xC5, CHR 0xB8, CHR 0xC3, CHR 0xAF,
                    CHR 0xC2, CHR 0xB8] @ ''-ticket-''"

text \<open>
  \<^verbatim>\<open>create_ticket\<close>. \<open>created\<close> is the id of the channel \<^verbatim>\<open>create_text_channel\<close> returns, or
  \<open>None\<close> when that call raises; the exception is caught and answered with the error reply.
\<close>

definition create_ticket ::
  "write_outcome \<Rightarrow> string \<Rightarrow> int option \<Rightarrow> interaction \<Rightarrow> string \<Rightarrow> world \<Rightarrow>
   effect list \<times> world" where
  "create_ticket io now created i motivo w =
     (let w1 = w\<lparr>ticket_counter := ticket_counter w + 1\<rparr>;
          ticket_number = ticket_counter w1;
          name = ticket_prefix @ format_04d ticket_number
      in case created of
           None \<Rightarrow> ([Reply TicketCreateError True], w1)
         | Some cid \<Rightarrow>
             (case load_tickets (w1\<lparr>channels := AList.update cid name (channels w1)\<rparr>) of
                (tickets_data, w2) \<Rightarrow>
                  let tickets_data1 = AList.update (str_int cid)
                        \<lparr>ticket_number = ticket_number, ticket_creator_id = user_id i,
                         ticket_creator_name = user_display_name i, ticket_motivo = motivo,
                         ticket_created_at = now, ticket_status = ''open'',
                         ticket_messages = [], ticket_closed_by = None,
                         ticket_closed_at = None\<rparr> tickets_data;
                      w3 = save_tickets io tickets_data1 w2
                  in ([CreateChannel name, Send cid (TicketWelcome ticket_number (user_id i) motivo),
                       Reply (TicketCreated ticket_number cid) True], w3)))"

text \<open>A message of \<^verbatim>\<open>channel.history\<close>: its author's bot flag, whether it has embeds, its line.\<close>

record history_message =
  hm_author_bot :: bool
  hm_has_embeds :: bool
  hm_line :: string

text \<open>
  \<^verbatim>\<open>generate_transcript\<close>: without a channel named \<^verbatim>\<open>transcript\<close> nothing is sent; reading
  \<^verbatim>\<open>closed_by\<close> or \<^verbatim>\<open>closed_at\<close> of a record that lacks the key raises \<^verbatim>\<open>KeyError\<close> before
  anything is sent, and the function's \<^verbatim>\<open>except\<close> logs it.
\<close>

definition generate_transcript :: "history_message list \<Rightarrow> ticket \<Rightarrow> world \<Rightarrow> effect list" where
  "generate_transcript history ticket_info w =
     (case find (\<lambda>ch. snd ch = ''transcript'') (channels w) of
        None \<Rightarrow> []
      | Some transcript_channel \<Rightarrow>
          let lines = map hm_line (filter (\<lambda>m. \<not> hm_author_bot m \<or> hm_has_embeds m) history)
          in (case (ticket_closed_by ticket_info, ticket_closed_at ticket_info) of
                (Some _, Some _) \<Rightarrow>
                  Send (fst transcript_channel) (TranscriptSummary ticket_info (length lines))
                  # (if lines \<noteq> []
                     then [Send (fst transcript_channel)
                             (TranscriptFile (ticket_number ticket_info) lines)]
                     else [])
              | _ \<Rightarrow> []))"

text \<open>
  \<^verbatim>\<open>close_ticket\<close>. \<open>history\<close> is what \<^verbatim>\<open>channel.history\<close> yields. The transcript is generated
  from the record as loaded, before \<^verbatim>\<open>closed_by\<close> and \<^verbatim>\<open>closed_at\<close> are set.
\<close>

definition close_ticket ::
  "write_outcome \<Rightarrow> string \<Rightarrow> history_message list \<Rightarrow> interaction \<Rightarrow> world \<Rightarrow>
   effect list \<times> world" where
  "close_ticket io now history i w =
     (if \<not> has_required_role (user_roles i) then ([Reply CloseNoPermission True], w)
      else if \<not> startswith (channel_name i) ticket_prefix then ([Reply NotTicketChannel True], w)
      else
        case load_tickets w of
          (tickets_data, w1) \<Rightarrow>
            (case map_of tickets_data (str_int (channel_id i)) of
               None \<Rightarrow> ([Reply TicketNotFound True], w1)
             | Some ticket_info \<Rightarrow>
                 let transcript = generate_transcript history ticket_info w1;
                     ticket_info1 = ticket_info\<lparr>ticket_status := ''closed'',
                                      ticket_closed_by := Some (user_id i),
                                      ticket_closed_at := Some now\<rparr>;
                     tickets_data1 =
                       AList.update (str_int (channel_id i)) ticket_info1 tickets_data;
                     w2 = save_tickets io tickets_data1 w1
                 in (transcript @ [Reply TicketClosed True, DeleteChannel (channel_id i)],
                     w2\<lparr>channels := AList.delete (channel_id i) (channels w2)\<rparr>)))"

section \<open>Messages and counters\<close>

text \<open>
  The settings \<^verbatim>\<open>on_message\<close> reads from \<^verbatim>\<open>config.py\<close>. \<^verbatim>\<open>CHANNEL_ID\<close> is \<open>None\<close> when the
  variable is not set.
\<close>

record config =
  CHANNEL_ID :: "int option"
  MESSAGE_THRESHOLD :: int

text \<open>
  An incoming message. A channel without a \<^verbatim>\<open>name\<close> attribute (a DM) has the name \<open>None\<close>; an
  author who is no member of a guild (a \<^verbatim>\<open>User\<close>) has no \<^verbatim>\<open>roles\<close> attribute, \<open>None\<close>.
\<close>

record message =
  msg_id :: int
  msg_author_id :: int
  msg_author_bot :: bool
  msg_author_roles :: "string list option"
  msg_content :: string
  msg_channel_id :: int
  msg_channel_name :: "string option"

definition welcome_channel_id :: int where
  "welcome_channel_id = 1386434424781934724"

definition help_message_threshold :: int where
  "help_message_threshold = 10"

text \<open>
  \<^verbatim>\<open>str.lower\<close> for the characters whose lower case has an ASCII letter in it: A to Z, U+0130
  (bytes \<^verbatim>\<open>c4 b0\<close>, to \<^verbatim>\<open>i\<close> and U+0307) and U+212A (bytes \<^verbatim>\<open>e2 84 aa\<close>, to \<^verbatim>\<open>k\<close>). Every other
  character is left as it is: its lower case has no ASCII byte and is no whitespace, so a
  comparison of the stripped result with ASCII text, the one use the handler makes of it, comes
  out as in Python.
\<close>

definition lower_ascii :: "char \<Rightarrow> char" where
  "lower_ascii c = (if 65 \<le> (of_char c :: nat) \<and> (of_char c :: nat) \<le> 90
                    then char_of ((of_char c :: nat) + 32) else c)"

fun py_lower :: "string \<Rightarrow> string" where
  "py_lower (c # d # e # cs) =
     (if c = CHR 0xC4 \<and> d = CHR 0xB0 then CHR ''i'' # CHR 0xCC # CHR 0x87 # py_lower (e # cs)
      else if c = CHR 0xE2 \<and> d = CHR 0x84 \<and> e = CHR 0xAA then CHR ''k'' # py_lower cs
      else lower_ascii c # py_lower (d # e # cs))"
| "py_lower [c, d] =
     (if c = CHR 0xC4 \<and> d = CHR 0xB0 then [CHR ''i'', CHR 0xCC, CHR 0x87]
      else [lower_ascii c, lower_ascii d])"
| "py_lower [c] = [lower_ascii c]"
| "py_lower [] = []"

text \<open>
  \<^verbatim>\<open>str.strip\<close>: the characters Python counts as whitespace, each as its UTF-8 bytes: U+0009
  to U+000D, U+001C to U+0020, U+0085, U+00A0, U+1680, U+2000 to U+200A, U+2028, U+2029,
  U+202F, U+205F and U+3000. They are taken off the front and, read backwards, off the end.
\<close>

definition whitespace :: "string list" where
  "whitespace =
     map (\<lambda>c. [c]) [CHR 0x09, CHR 0x0A, CHR 0x0B, CHR 0x0C, CHR 0x0D, CHR 0x1C, CHR 0x1D,
                    CHR 0x1E, CHR 0x1F, CHR 0x20]
     @ [[CHR 0xC2, CHR 0x85], [CHR 0xC2, CHR 0xA0], [CHR 0xE1, CHR 0x9A, CHR 0x80]]
     @ map (\<lambda>c. [CHR 0xE2, CHR 0x80, c])
         [CHR 0x80, CHR 0x81, CHR 0x82, CHR 0x83, CHR 0x84, CHR 0x85, CHR 0x86, CHR 0x87,
          CHR 0x88, CHR 0x89, CHR 0x8A, CHR 0xA8, CHR 0xA9, CHR 0xAF]
     @ [[CHR 0xE2, CHR 0x81, CHR 0x9F], [CHR 0xE3, CHR 0x80, CHR 0x80]]"

function strip_leading :: "string list \<Rightarrow> string \<Rightarrow> string" where
  "strip_leading marks s =
     (case find (\<lambda>mark. mark \<noteq> [] \<and> startswith s mark) marks of
        None \<Rightarrow> s
      | Some mark \<Rightarrow> strip_leading marks (drop (length mark) s))"
  by pat_completeness auto

termination
proof (relation "measure (\<lambda>(marks, s). length s)")
  show "wf (measure (\<lambda>(marks, s). length s))" by simp
next
  fix marks :: "string list" and s mark :: string
  assume "find (\<lambda>mark. mark \<noteq> [] \<and> startswith s mark) marks = Some mark"
  then have nonempty: "mark \<noteq> []" and prefix: "take (length mark) s = mark"
    by (auto simp: find_Some_iff startswith_def)
  from prefix have "length (take (length mark) s) = length mark" by simp
  then have bound: "length mark \<le> length s" by simp
  from nonempty have positive: "0 < length mark" by simp
  from bound positive have "length s - length mark < length s" by linarith
  then show "((marks, drop (length mark) s), (marks, s)) \<in> measure (\<lambda>(marks, s). length s)"
    by simp
qed

declare strip_leading.simps [simp del]

definition py_strip :: "string \<Rightarrow> string" where
  "py_strip s = rev (strip_leading (map rev whitespace) (rev (strip_leading whitespace s)))"

text \<open>
  The \<^verbatim>\<open>try\<close> block that counts a message of the monitored channel, up to the point where the
  handler waits. The counter is read and incremented; the debug line then reads
  \<^verbatim>\<open>message.channel.name\<close>, which raises for a channel without name: the \<^verbatim>\<open>except\<close> logs it
  and nothing has been stored. Otherwise the new value is stored; below the threshold the
  counters are saved and the handler is done (\<open>False\<close>); at the threshold the handler awaits
  \<^verbatim>\<open>send_reminder\<close> (\<open>True\<close>) with the incremented value still stored.
\<close>

definition count_message ::
  "config \<Rightarrow> write_outcome \<Rightarrow> message \<Rightarrow> world \<Rightarrow> effect list \<times> bool \<times> world" where
  "count_message cfg io m w =
     (let current_count = dict_get_default (message_counters w) (msg_channel_id m) 0 + 1 in
      case msg_channel_name m of
        None \<Rightarrow> ([], False, w)
      | Some _ \<Rightarrow>
          let w1 = w\<lparr>message_counters :=
                       AList.update (msg_channel_id m) current_count (message_counters w)\<rparr>
          in if current_count \<ge> MESSAGE_THRESHOLD cfg
             then ([Send (msg_channel_id m) ReminderMessage], True, w1)
             else ([], False, save_counters io w1))"

text \<open>What the handler does when \<^verbatim>\<open>send_reminder\<close> has returned: reset, then save.\<close>

definition finish_reminder :: "write_outcome \<Rightarrow> message \<Rightarrow> world \<Rightarrow> world" where
  "finish_reminder io m w =
     save_counters io (w\<lparr>message_counters := AList.update (msg_channel_id m) 0 (message_counters w)\<rparr>)"

text \<open>
  The restriction in ticket channels: the message of an author who is neither privileged nor
  the recorded creator is removed. \<^verbatim>\<open>load_tickets\<close> is called on the way. For an author
  without \<^verbatim>\<open>roles\<close> the role check raises \<^verbatim>\<open>AttributeError\<close>, which ends the handler.
\<close>

datatype gate = GatePasses | GateRemoves | GateRaises

definition ticket_gate :: "message \<Rightarrow> world \<Rightarrow> gate \<times> world" where
  "ticket_gate m w =
     (case msg_channel_name m of
        None \<Rightarrow> (GatePasses, w)
      | Some name \<Rightarrow>
          if startswith name ticket_prefix \<and> \<not> msg_author_bot m
          then (case msg_author_roles m of
                  None \<Rightarrow> (GateRaises, w)
                | Some roles \<Rightarrow>
                    if \<not> has_required_role roles
                    then (case load_tickets w of
                            (tickets_data, w1) \<Rightarrow>
                              (case map_of tickets_data (str_int (msg_channel_id m)) of
                                 None \<Rightarrow> (GatePasses, w1)
                               | Some ticket_info \<Rightarrow>
                                   (if msg_author_id m \<noteq> ticket_creator_id ticket_info
                                    then GateRemoves else GatePasses, w1)))
                    else (GatePasses, w))
          else (GatePasses, w))"

text \<open>The help counter: incremented, and reset before the help message is sent.\<close>

definition count_help :: "message \<Rightarrow> world \<Rightarrow> effect list \<times> world" where
  "count_help m w =
     (if \<not> startswith (msg_content m) ''/'' \<and> \<not> msg_author_bot m \<and> msg_channel_name m \<noteq> None
      then
        let w1 = w\<lparr>help_message_counter := help_message_counter w + 1\<rparr>
        in if help_message_counter w1 \<ge> help_message_threshold
           then ([Send (msg_channel_id m) HelpMessage], w1\<lparr>help_message_counter := 0\<rparr>)
           else ([], w1)
      else ([], w))"

text \<open>
  \<^verbatim>\<open>on_message\<close> up to the await of \<^verbatim>\<open>send_reminder\<close>; the flag tells whether the handler
  waits there. The other awaits of the handler are followed by no access to the bot's state,
  so those paths run in one step. In the monitored channel the role check of an author without
  \<^verbatim>\<open>roles\<close> raises \<^verbatim>\<open>AttributeError\<close> and ends the handler before anything is done.
  \<^verbatim>\<open>process_commands\<close> finds no registered prefix command.
\<close>

definition on_message_begin ::
  "config \<Rightarrow> write_outcome \<Rightarrow> message \<Rightarrow> world \<Rightarrow> effect list \<times> bool \<times> world" where
  "on_message_begin cfg io m w =
     (if msg_author_bot m then ([], False, w)
      else
        let content = py_strip (py_lower (msg_content m)) in
        if content = ''/test bienvenida'' \<or> content = ''test bienvenida'' then
          (if map_of (channels w) welcome_channel_id \<noteq> None
           then [Send welcome_channel_id (WelcomeMessage (msg_author_id m)),
                 Send (msg_channel_id m) WelcomeSent]
           else [], False, w)
        else if content = ''/test despedida'' \<or> content = ''test despedida'' then
          (if map_of (channels w) welcome_channel_id \<noteq> None
           then [Send welcome_channel_id (GoodbyeMessage (msg_author_id m)),
                 Send (msg_channel_id m) GoodbyeSent]
           else [], False, w)
        else if CHANNEL_ID cfg = Some (msg_channel_id m) then
          (if startswith (msg_content m) ''/'' then count_message cfg io m w
           else
             (case msg_author_roles m of
                None \<Rightarrow> ([], False, w)
              | Some roles \<Rightarrow>
                  if \<not> has_required_role roles
                  then ([Delete (msg_channel_id m) (msg_id m),
                         Send (msg_channel_id m) (CommandsOnlyWarning (msg_author_id m)),
                         DeleteWarningLater (msg_channel_id m)], False, w)
                  else count_message cfg io m w))
        else
          (case ticket_gate m w of
             (GateRaises, w1) \<Rightarrow> ([], False, w1)
           | (GateRemoves, w1) \<Rightarrow>
               ([Delete (msg_channel_id m) (msg_id m),
                 Send (msg_channel_id m) (AdminsOnlyWarning (msg_author_id m)),
                 DeleteWarningLater (msg_channel_id m)], False, w1)
           | (GatePasses, w1) \<Rightarrow>
               (case count_help m w1 of (sent, w2) \<Rightarrow> (sent, False, w2))))"

text \<open>\<^verbatim>\<open>on_message\<close> run to its end with no other handler in between.\<close>

definition on_message :: "config \<Rightarrow> write_outcome \<Rightarrow> message \<Rightarrow> world \<Rightarrow> effect list \<times> world" where
  "on_message cfg io m w =
     (case on_message_begin cfg io m w of
        (sent, True, w1) \<Rightarrow> (sent, finish_reminder io m w1)
      | (sent, False, w1) \<Rightarrow> (sent, w1))"

text \<open>
  Handlers on the cooperative event loop: a handler runs from the arrival of its message to
  its await, and a handler that waits in \<^verbatim>\<open>send_reminder\<close> is resumed later; handlers of other
  messages may run in between. The state is the list of waiting handlers, what has been sent,
  and the world. Resuming a handler that does not wait is not a schedule (\<open>None\<close>).
\<close>

datatype step = Arrives message | Resumes message

fun run_handlers ::
  "config \<Rightarrow> write_outcome \<Rightarrow> step list \<Rightarrow> message list \<times> effect list \<times> world \<Rightarrow>
   (message list \<times> effect list \<times> world) option" where
  "run_handlers cfg io [] st = Some st"
| "run_handlers cfg io (Arrives m # rest) (waiting, sent, w) =
     (case on_message_begin cfg io m w of
        (out, True, w1) \<Rightarrow> run_handlers cfg io rest (waiting @ [m], sent @ out, w1)
      | (out, False, w1) \<Rightarrow> run_handlers cfg io rest (waiting, sent @ out, w1))"
| "run_handlers cfg io (Resumes m # rest) (waiting, sent, w) =
     (if m \<in> set waiting
      then run_handlers cfg io rest (remove1 m waiting, sent, finish_reminder io m w)
      else None)"

section \<open>Start of the bot\<close>

text \<open>
  \<^verbatim>\<open>load_counters\<close>: the dict comprehension \<^verbatim>\<open>{int(k): v for k, v in data.items()}\<close>; a key
  that is no integer raises, and so does a file that does not parse; the \<^verbatim>\<open>except\<close> then
  leaves the counters empty.
\<close>

definition int_keys :: "to_int \<Rightarrow> (string, int) dict \<Rightarrow> (int, int) dict option" where
  "int_keys py_int data =
     fold (\<lambda>(k, v) acc. case acc of
               None \<Rightarrow> None
             | Some d \<Rightarrow> (case py_int k of None \<Rightarrow> None | Some n \<Rightarrow> Some (AList.update n v d)))
          data (Some [])"

definition load_counters :: "to_int \<Rightarrow> world \<Rightarrow> world" where
  "load_counters py_int w =
     (case counter_file w of
        Absent \<Rightarrow> w\<lparr>message_counters := []\<rparr>
      | Intact data \<Rightarrow>
          (case int_keys py_int data of
             None \<Rightarrow> w\<lparr>message_counters := []\<rparr>
           | Some d \<Rightarrow> w\<lparr>message_counters := d\<rparr>)
      | Partial _ \<Rightarrow> w\<lparr>message_counters := []\<rparr>)"

text \<open>
  A restart: \<^verbatim>\<open>__init__\<close> sets the attributes of a new bot object and calls \<^verbatim>\<open>load_counters\<close>;
  the files and the platform stay as they are. \<^verbatim>\<open>__init__\<close> does not read the tickets file.
\<close>

definition restart :: "to_int \<Rightarrow> world \<Rightarrow> world" where
  "restart py_int w =
     load_counters py_int (w\<lparr>message_counters := [], suggestions_command_counter := 0,
                      help_message_counter := 0, ticket_counter := 0\<rparr>)"

section \<open>The review command and concrete inputs\<close>





text \<open>The contents for which \<^verbatim>\<open>on_message\<close> runs one of its two test commands.\<close>

definition test_commands :: "string list" where
  "test_commands =
     [''/test bienvenida'', ''test bienvenida'', ''/test despedida'', ''test despedida'']"

text \<open>A member without roles and a privileged one, each with the channel the command is used in.\<close>

definition ana :: interaction where
  "ana = \<lparr>user_id = 7, user_display_name = ''Ana'', user_roles = [], channel_id = 1,
          channel_name = ''general''\<rparr>"

definition gerente :: interaction where
  "gerente = \<lparr>user_id = 9, user_display_name = ''Luz'', user_roles = [''Gerente''],
              channel_id = 1, channel_name = ''sugerencias''\<rparr>"

definition gerente_in_ticket_channel :: interaction where
  "gerente_in_ticket_channel = \<lparr>user_id = 9, user_display_name = ''Luz'',
     user_roles = [''Gerente''], channel_id = 500, channel_name = ticket_prefix @ ''0001''\<rparr>"

definition spam_strike :: strike where
  "spam_strike = \<lparr>strike_tipo = ''leve'', strike_motivo = ''spam'',
                  strike_fecha = ''2025-01-01'', strike_autor = ''Luz''\<rparr>"

definition insult_strike :: strike where
  "insult_strike = \<lparr>strike_tipo = ''grave'', strike_motivo = ''insultos'',
                    strike_fecha = ''2025-01-02'', strike_autor = ''Luz''\<rparr>"

text \<open>An entry whose \<^verbatim>\<open>tipo\<close> is none of the three severities, as a hand-edited file may hold.\<close>

definition fatal_strike :: strike where
  "fatal_strike = \<lparr>strike_tipo = ''fatal'', strike_motivo = ''x'',
                   strike_fecha = ''2025-01-03'', strike_autor = ''Luz''\<rparr>"




text \<open>
  The monitored channel is channel 1 with a threshold of two messages; \<open>chat_message n\<close> is the
  text message with id \<open>n\<close> a privileged member posts there, \<open>general_message\<close> a text message
  a member without roles posts in channel 2.
\<close>

definition suggestions_config :: config where
  "suggestions_config = \<lparr>CHANNEL_ID = Some 1, MESSAGE_THRESHOLD = 2\<rparr>"

definition chat_message :: "int \<Rightarrow> message" where
  "chat_message n = \<lparr>msg_id = n, msg_author_id = 9, msg_author_bot = False,
     msg_author_roles = Some [''Gerente''], msg_content = ''hola'', msg_channel_id = 1,
     msg_channel_name = Some ''sugerencias''\<rparr>"

definition general_message :: message where
  "general_message = \<lparr>msg_id = 70, msg_author_id = 7, msg_author_bot = False,
     msg_author_roles = Some [], msg_content = ''hola'', msg_channel_id = 2,
     msg_channel_name = Some ''general''\<rparr>"

text \<open>
  A world after a first ticket, in channel 101: the tickets file holds its record and the
  counter 1, while the bot's own counter stands at 2.
\<close>

definition tickets_world :: world where
  "tickets_world = fresh_world\<lparr>ticket_counter := 2,
     tickets_file := Intact \<lparr>json_counter = Some 1,
       json_tickets = Some [(''101'',
         \<lparr>ticket_number = 1, ticket_creator_id = 7, ticket_creator_name = ''Ana'',
          ticket_motivo = ''ayuda'', ticket_created_at = ''2025-01-01T09:00:00'',
          ticket_status = ''open'', ticket_messages = [], ticket_closed_by = None,
          ticket_closed_at = None\<rparr>)]\<rparr>\<rparr>"

text \<open>A world whose strikes file holds one strike of user 42.\<close>

definition strikes_world :: world where
  "strikes_world = fresh_world\<lparr>strikes_file := Intact [(''42'', [spam_strike])]\<rparr>"

text \<open>
  The messages \<^verbatim>\<open>on_message\<close> counts for the reminder: written by a human in the monitored
  channel, which has a name, not one of the test commands, and either a slash command or from
  a privileged member.
\<close>

definition counted :: "config \<Rightarrow> message \<Rightarrow> bool" where
  "counted cfg m =
     (\<not> msg_author_bot m \<and> py_strip (py_lower (msg_content m)) \<notin> set test_commands
      \<and> CHANNEL_ID cfg = Some (msg_channel_id m) \<and> msg_channel_name m \<noteq> None
      \<and> (startswith (msg_content m) ''/''
         \<or> (case msg_author_roles m of None \<Rightarrow> False | Some roles \<Rightarrow> has_required_role roles)))"

text \<open>Messages handled one after the other, each handler finishing before the next starts.\<close>

fun process_messages ::
  "config \<Rightarrow> write_outcome \<Rightarrow> message list \<Rightarrow> world \<Rightarrow> effect list \<times> world" where
  "process_messages cfg io [] w = ([], w)"
| "process_messages cfg io (m # ms) w =
     (case on_message cfg io m w of
        (sent, w1) \<Rightarrow> (case process_messages cfg io ms w1 of (sent', w2) \<Rightarrow> (sent @ sent', w2)))"


section \<open>Properties of the strike ledger\<close>

lemma count_strikes_loop_recognized:
  "\<forall>s\<in>set xs. strike_tipo s \<in> set severities \<Longrightarrow>
   \<exists>l m g. count_strikes_loop xs [(''leve'', a), (''moderado'', b), (''grave'', c)]
             = Inr [(''leve'', l), (''moderado'', m), (''grave'', g)]
           \<and> l + m + g = a + b + c + int (length xs)"
proof (induction xs arbitrary: a b c)
  case Nil
  then show ?case by simp
next
  case (Cons s xs)
  then have here: "strike_tipo s \<in> set severities"
    and rest: "\<forall>s\<in>set xs. strike_tipo s \<in> set severities" by simp_all
  from here consider "strike_tipo s = ''leve''" | "strike_tipo s = ''moderado''"
    | "strike_tipo s = ''grave''"
    by (auto simp: severities_def)
  then show ?case
  proof cases
    case 1
    with Cons.IH[OF rest, of "a + 1" b c] show ?thesis by auto
  next
    case 2
    with Cons.IH[OF rest, of a "b + 1" c] show ?thesis by auto
  next
    case 3
    with Cons.IH[OF rest, of a b "c + 1"] show ?thesis by auto
  qed
qed

lemma count_strikes_loop_unrecognized:
  "\<exists>s\<in>set xs. strike_tipo s \<notin> fst ` set count \<Longrightarrow> count_strikes_loop xs count = Inl KeyError"
proof (induction xs arbitrary: count)
  case Nil
  then show ?case by simp
next
  case (Cons s xs)
  show ?case
  proof (cases "map_of count (strike_tipo s)")
    case None
    then show ?thesis by simp
  next
    case (Some n)
    then have "(strike_tipo s, n) \<in> set count" by (rule map_of_SomeD)
    then have known: "strike_tipo s \<in> fst ` set count" by force
    with Cons.prems have later: "\<exists>s\<in>set xs. strike_tipo s \<notin> fst ` set count" by auto
    have "fst ` set (AList.update (strike_tipo s) (n + 1) count) = fst ` set count"
      using known by (auto simp: dom_update)
    with later Cons.IH[of "AList.update (strike_tipo s) (n + 1) count"] Some
    show ?thesis by simp
  qed
qed

text \<open>
  Claim C10. When every entry of a strike list has one of the three recognized severities,
  \<open>count_strikes\<close> succeeds and the three counts it returns add up to the length of the
  list; when some entry has another severity, \<open>count_strikes\<close> ends in its error branch, the
  \<^verbatim>\<open>KeyError\<close> of \<^verbatim>\<open>count[strike["tipo"]]\<close>.
\<close>

theorem count_strikes_total:
  "((\<forall>s\<in>set xs. strike_tipo s \<in> set severities) \<longrightarrow>
      (\<exists>l m g. count_strikes xs = Inr [(''leve'', l), (''moderado'', m), (''grave'', g)]
               \<and> l + m + g = int (length xs)))
   \<and> ((\<exists>s\<in>set xs. strike_tipo s \<notin> set severities) \<longrightarrow> count_strikes xs = Inl KeyError)"
proof (intro conjI impI)
  assume "\<forall>s\<in>set xs. strike_tipo s \<in> set severities"
  from count_strikes_loop_recognized[OF this, of 0 0 0]
  show "\<exists>l m g. count_strikes xs = Inr [(''leve'', l), (''moderado'', m), (''grave'', g)]
               \<and> l + m + g = int (length xs)"
    by (simp add: count_strikes_def)
next
  assume "\<exists>s\<in>set xs. strike_tipo s \<notin> set severities"
  then have "\<exists>s\<in>set xs. strike_tipo s
      \<notin> fst ` set [(''leve'', 0::int), (''moderado'', 0), (''grave'', 0)]"
    by (simp add: severities_def)
  from count_strikes_loop_unrecognized[OF this] show "count_strikes xs = Inl KeyError"
    by (simp add: count_strikes_def)
qed

theorem count_strikes_total_witness:
  "strike_tipo spam_strike \<in> set severities \<and> strike_tipo insult_strike \<in> set severities
   \<and> count_strikes [spam_strike, insult_strike]
       = Inr [(''leve'', 1), (''moderado'', 0), (''grave'', 1)]
   \<and> strike_tipo fatal_strike \<notin> set severities
   \<and> count_strikes [fatal_strike] = Inl KeyError"
proof -
  have h1: "\<forall>s\<in>set [spam_strike, insult_strike]. strike_tipo s \<in> set severities"
    by (simp add: spam_strike_def insult_strike_def severities_def)
  have h2: "\<exists>s\<in>set [fatal_strike]. strike_tipo s \<notin> set severities"
    by (simp add: fatal_strike_def severities_def)
  from count_strikes_total[of "[spam_strike, insult_strike]"] h1
  obtain l m g where
    c: "count_strikes [spam_strike, insult_strike]
          = Inr [(''leve'', l), (''moderado'', m), (''grave'', g)]"
    by blast
  have v: "count_strikes [spam_strike, insult_strike]
          = Inr [(''leve'', 1), (''moderado'', 0), (''grave'', 1)]"
    using c by (simp add: count_strikes_def spam_strike_def insult_strike_def)
  from count_strikes_total[of "[fatal_strike]"] h2
  have e: "count_strikes [fatal_strike] = Inl KeyError" by blast
  from h1 h2 v e show ?thesis by simp
qed

text \<open>
  Claim C4. The escalation is a function of the three severity counts alone, decided most severe
  first with one outcome: for a count dict with \<open>minor\<close> under \<^verbatim>\<open>leve\<close>, \<open>moderate\<close> under
  \<^verbatim>\<open>moderado\<close> and \<open>severe\<close> under \<^verbatim>\<open>grave\<close>, \<open>check_strike_limits\<close> returns the direct
  termination risk when \<open>severe \<ge> 1\<close>; else the termination risk when \<open>minor \<ge> 5\<close> or
  \<open>moderate \<ge> 3\<close>; else the warning when \<open>minor \<ge> 3\<close> or \<open>moderate \<ge> 2\<close>; else nothing.
\<close>

theorem check_strike_limits_classification:
  assumes "map_of strikes_count ''leve'' = Some minor"
    and "map_of strikes_count ''moderado'' = Some moderate"
    and "map_of strikes_count ''grave'' = Some severe"
  shows "\<exists>r. check_strike_limits strikes_count = Inr r \<and> map_option escalation_of r =
     (if severe \<ge> 1 then Some DirectTerminationRisk
      else if minor \<ge> 5 \<or> moderate \<ge> 3 then Some TerminationRisk
      else if minor \<ge> 3 \<or> moderate \<ge> 2 then Some Warning
      else None)"
  using assms by (simp add: check_strike_limits_def)

text \<open>
  The three examples of the claim: one severe strike, three minor strikes, two minor strikes.
\<close>

theorem check_strike_limits_classification_witness:
  "map_of [(''leve'', 0), (''moderado'', 0), (''grave'', 1::int)] ''leve'' = Some 0
   \<and> map_of [(''leve'', 0), (''moderado'', 0), (''grave'', 1::int)] ''moderado'' = Some 0
   \<and> map_of [(''leve'', 0), (''moderado'', 0), (''grave'', 1::int)] ''grave'' = Some 1
   \<and> (\<exists>r. check_strike_limits [(''leve'', 0), (''moderado'', 0), (''grave'', 1)] = Inr r
          \<and> map_option escalation_of r = Some DirectTerminationRisk)
   \<and> (\<exists>r. check_strike_limits [(''leve'', 3), (''moderado'', 0), (''grave'', 0)] = Inr r
          \<and> map_option escalation_of r = Some Warning)
   \<and> (\<exists>r. check_strike_limits [(''leve'', 2), (''moderado'', 0), (''grave'', 0)] = Inr r
          \<and> map_option escalation_of r = None)"
  using check_strike_limits_classification
          [of "[(''leve'', 0), (''moderado'', 0), (''grave'', 1)]" 0 0 1]
    check_strike_limits_classification
          [of "[(''leve'', 3), (''moderado'', 0), (''grave'', 0)]" 3 0 0]
    check_strike_limits_classification
          [of "[(''leve'', 2), (''moderado'', 0), (''grave'', 0)]" 2 0 0]
  by simp

lemma remove_strike_pops_last:
  assumes "map_of strikes_data uid = Some (es @ [e])"
  shows "remove_strike io i strikes_data uid w
         = ([Reply (StrikeRemoved e) False], AList.update uid es strikes_data,
            save_strikes io (AList.update uid es strikes_data) w)"
proof (cases "es @ [e]")
  case Nil
  then show ?thesis by simp
next
  case (Cons x xs)
  have "last (x # xs) = e" and "butlast (x # xs) = es"
    unfolding Cons[symmetric] by simp_all
  with assms Cons show ?thesis by (simp add: remove_strike_def Let_def)
qed

lemma add_strike_appends:
  assumes "t \<noteq> []" and "m \<noteq> []"
  shows "snd (add_strike io today i strikes_data uid (Some t) (Some m) w)
         = (AList.update uid
              (dict_get_default strikes_data uid []
               @ [\<lparr>strike_tipo = t, strike_motivo = m, strike_fecha = today,
                   strike_autor = user_display_name i\<rparr>])
              (if map_of strikes_data uid = None then AList.update uid [] strikes_data
               else strikes_data),
            save_strikes io
              (AList.update uid
                 (dict_get_default strikes_data uid []
                  @ [\<lparr>strike_tipo = t, strike_motivo = m, strike_fecha = today,
                      strike_autor = user_display_name i\<rparr>])
                 (if map_of strikes_data uid = None then AList.update uid [] strikes_data
                  else strikes_data)) w)"
  using assms
  by (auto simp: add_strike_def Let_def dict_get_default_def update_conv'
      split: sum.splits option.splits)

text \<open>
  Claim C8. \<open>add_strike\<close> followed by \<open>remove_strike\<close>, each on the freshly loaded ledger and
  with completed saves, gives the user the stored list back that was there before: the entry
  is appended at the end of the list, the removal takes off and reports exactly that entry, and
  the lists of other users are as before. So a ledger that was empty for the user (no key, or
  an empty list) is empty again. \<open>remove_strike\<close> on any ledger pops the last entry of the
  user's list, and for a user without entries it answers with the not-found reply and changes
  neither the ledger nor the world.
\<close>

theorem add_then_remove_strike:
  assumes "t \<noteq> []" and "m \<noteq> []"
  shows "(case add_strike WriteOk today i (load_strikes w) uid (Some t) (Some m) w of
            (r1, d1, w1) \<Rightarrow>
              (case remove_strike WriteOk i' (load_strikes w1) uid w1 of
                 (r2, d2, w2) \<Rightarrow>
                   map_of (load_strikes w1) uid =
                     Some (dict_get_default (load_strikes w) uid []
                           @ [\<lparr>strike_tipo = t, strike_motivo = m, strike_fecha = today,
                               strike_autor = user_display_name i\<rparr>])
                 \<and> r2 = [Reply (StrikeRemoved \<lparr>strike_tipo = t, strike_motivo = m,
                            strike_fecha = today, strike_autor = user_display_name i\<rparr>) False]
                 \<and> map_of d2 uid = Some (dict_get_default (load_strikes w) uid [])
                 \<and> load_strikes w2 = d2
                 \<and> (\<forall>u. u \<noteq> uid \<longrightarrow> map_of (load_strikes w2) u = map_of (load_strikes w) u)))
       \<and> (dict_get_default strikes_data uid [] = [] \<longrightarrow>
            remove_strike io i' strikes_data uid w
              = ([Reply NoStrikesToRemove True], strikes_data, w))
       \<and> (map_of strikes_data uid = Some (es @ [e]) \<longrightarrow>
            remove_strike io i' strikes_data uid w
              = ([Reply (StrikeRemoved e) False], AList.update uid es strikes_data,
                 save_strikes io (AList.update uid es strikes_data) w))"
proof (intro conjI impI)
  show "case add_strike WriteOk today i (load_strikes w) uid (Some t) (Some m) w of
            (r1, d1, w1) \<Rightarrow>
              (case remove_strike WriteOk i' (load_strikes w1) uid w1 of
                 (r2, d2, w2) \<Rightarrow>
                   map_of (load_strikes w1) uid =
                     Some (dict_get_default (load_strikes w) uid []
                           @ [\<lparr>strike_tipo = t, strike_motivo = m, strike_fecha = today,
                               strike_autor = user_display_name i\<rparr>])
                 \<and> r2 = [Reply (StrikeRemoved \<lparr>strike_tipo = t, strike_motivo = m,
                            strike_fecha = today, strike_autor = user_display_name i\<rparr>) False]
                 \<and> map_of d2 uid = Some (dict_get_default (load_strikes w) uid [])
                 \<and> load_strikes w2 = d2
                 \<and> (\<forall>u. u \<noteq> uid \<longrightarrow> map_of (load_strikes w2) u = map_of (load_strikes w) u))"
  proof -
    define new where "new = \<lparr>strike_tipo = t, strike_motivo = m, strike_fecha = today,
                               strike_autor = user_display_name i\<rparr>"
    define before where "before = dict_get_default (load_strikes w) uid []"
    define d1 where "d1 = AList.update uid (before @ [new])
        (if map_of (load_strikes w) uid = None then AList.update uid [] (load_strikes w)
         else load_strikes w)"
    obtain r1 where add: "add_strike WriteOk today i (load_strikes w) uid (Some t) (Some m) w
                          = (r1, d1, save_strikes WriteOk d1 w)"
      using add_strike_appends[OF assms, of WriteOk today i "load_strikes w" uid w]
      by (cases "add_strike WriteOk today i (load_strikes w) uid (Some t) (Some m) w")
         (simp add: d1_def before_def new_def)
    have l1: "load_strikes (save_strikes WriteOk d1 w) = d1"
      by (simp add: load_strikes_def save_strikes_def)
    have m1: "map_of d1 uid = Some (before @ [new])" by (simp add: d1_def update_conv')
    have rem: "remove_strike WriteOk i' d1 uid (save_strikes WriteOk d1 w)
               = ([Reply (StrikeRemoved new) False], AList.update uid before d1,
                  save_strikes WriteOk (AList.update uid before d1) (save_strikes WriteOk d1 w))"
      by (rule remove_strike_pops_last[OF m1])
    have others: "\<forall>u. u \<noteq> uid \<longrightarrow> map_of (AList.update uid before d1) u = map_of (load_strikes w) u"
      by (simp add: d1_def update_conv')
    have l2: "load_strikes (save_strikes WriteOk (AList.update uid before d1)
                 (save_strikes WriteOk d1 w)) = AList.update uid before d1"
      by (simp add: load_strikes_def save_strikes_def)
    show ?thesis
      unfolding new_def[symmetric] before_def[symmetric]
      using add l1 l2 m1 rem others by (simp add: update_conv')
  qed
next
  assume "dict_get_default strikes_data uid [] = []"
  then show "remove_strike io i' strikes_data uid w
              = ([Reply NoStrikesToRemove True], strikes_data, w)"
    by (auto simp: remove_strike_def dict_get_default_def split: option.splits list.splits)
next
  assume "map_of strikes_data uid = Some (es @ [e])"
  then show "remove_strike io i' strikes_data uid w
              = ([Reply (StrikeRemoved e) False], AList.update uid es strikes_data,
                 save_strikes io (AList.update uid es strikes_data) w)"
    by (rule remove_strike_pops_last)
qed

theorem add_then_remove_strike_witness:
  "''grave'' \<noteq> [] \<and> ''insultos'' \<noteq> []
   \<and> (case add_strike WriteOk ''2025-01-02'' gerente (load_strikes strikes_world) ''42''
             (Some ''grave'') (Some ''insultos'') strikes_world of
        (r1, d1, w1) \<Rightarrow>
          (case remove_strike WriteOk gerente (load_strikes w1) ''42'' w1 of
             (r2, d2, w2) \<Rightarrow>
               map_of (load_strikes w1) ''42'' = Some [spam_strike, insult_strike]
             \<and> r2 = [Reply (StrikeRemoved insult_strike) False]
             \<and> map_of (load_strikes w2) ''42'' = Some [spam_strike]))
   \<and> (case add_strike WriteOk ''2025-01-02'' gerente (load_strikes fresh_world) ''42''
             (Some ''grave'') (Some ''insultos'') fresh_world of
        (r1, d1, w1) \<Rightarrow>
          (case remove_strike WriteOk gerente (load_strikes w1) ''42'' w1 of
             (r2, d2, w2) \<Rightarrow>
               map_of (load_strikes w1) ''42'' = Some [insult_strike]
             \<and> r2 = [Reply (StrikeRemoved insult_strike) False]
             \<and> map_of (load_strikes w2) ''42'' = Some []))
   \<and> dict_get_default (load_strikes fresh_world) ''42'' [] = []
   \<and> remove_strike WriteOk gerente (load_strikes fresh_world) ''42'' fresh_world
       = ([Reply NoStrikesToRemove True], load_strikes fresh_world, fresh_world)
   \<and> map_of [(''42'', [spam_strike, insult_strike])] ''42'' = Some ([spam_strike] @ [insult_strike])
   \<and> remove_strike WriteOk gerente [(''42'', [spam_strike, insult_strike])] ''42'' fresh_world
       = ([Reply (StrikeRemoved insult_strike) False], [(''42'', [spam_strike])],
          fresh_world\<lparr>strikes_file := Intact [(''42'', [spam_strike])]\<rparr>)"
proof -
  have n: "''grave'' \<noteq> []" "''insultos'' \<noteq> []" by simp_all
  have h: "dict_get_default (load_strikes fresh_world) ''42'' [] = []"
    by (simp add: dict_get_default_def load_strikes_def fresh_world_def)
  have k: "map_of [(''42'', [spam_strike, insult_strike])] ''42''
            = Some ([spam_strike] @ [insult_strike])"
    by simp
  note t = add_then_remove_strike[OF n]
  have a: "case add_strike WriteOk ''2025-01-02'' gerente (load_strikes strikes_world) ''42''
             (Some ''grave'') (Some ''insultos'') strikes_world of
        (r1, d1, w1) \<Rightarrow>
          (case remove_strike WriteOk gerente (load_strikes w1) ''42'' w1 of
             (r2, d2, w2) \<Rightarrow>
               map_of (load_strikes w1) ''42'' = Some [spam_strike, insult_strike]
             \<and> r2 = [Reply (StrikeRemoved insult_strike) False]
             \<and> map_of (load_strikes w2) ''42'' = Some [spam_strike])"
    by code_simp
  have b: "case add_strike WriteOk ''2025-01-02'' gerente (load_strikes fresh_world) ''42''
             (Some ''grave'') (Some ''insultos'') fresh_world of
        (r1, d1, w1) \<Rightarrow>
          (case remove_strike WriteOk gerente (load_strikes w1) ''42'' w1 of
             (r2, d2, w2) \<Rightarrow>
               map_of (load_strikes w1) ''42'' = Some [insult_strike]
             \<and> r2 = [Reply (StrikeRemoved insult_strike) False]
             \<and> map_of (load_strikes w2) ''42'' = Some [])"
    by code_simp
  have c: "remove_strike WriteOk gerente (load_strikes fresh_world) ''42'' fresh_world
       = ([Reply NoStrikesToRemove True], load_strikes fresh_world, fresh_world)"
    by (rule t[THEN conjunct2, THEN conjunct1, rule_format, OF h])
  have d: "remove_strike WriteOk gerente [(''42'', [spam_strike, insult_strike])] ''42'' fresh_world
       = ([Reply (StrikeRemoved insult_strike) False], [(''42'', [spam_strike])],
          fresh_world\<lparr>strikes_file := Intact [(''42'', [spam_strike])]\<rparr>)"
    using t[THEN conjunct2, THEN conjunct2, rule_format, OF k, of WriteOk gerente fresh_world]
    by (simp add: save_strikes_def fresh_world_def)
  from n a b h c k d show ?thesis by blast
qed

section \<open>Properties of the ticket workflow\<close>

text \<open>
  Claim C9. A privileged member who closes a ticket channel for which the tickets file has no
  record gets the not-found reply and nothing else happens: no transcript message, no channel
  deletion, no file is written and the platform is as before. The only change is that
  \<open>load_tickets\<close> has refreshed the bot's in-memory ticket counter from the file.
\<close>

theorem close_ticket_without_record:
  assumes "has_required_role (user_roles i)" and "startswith (channel_name i) ticket_prefix"
    and "map_of (fst (load_tickets w)) (str_int (channel_id i)) = None"
  shows "close_ticket io now history i w
         = ([Reply TicketNotFound True],
            w\<lparr>ticket_counter := ticket_counter (snd (load_tickets w))\<rparr>)"
  using assms
  by (auto simp: close_ticket_def load_tickets_def
      split: prod.splits json_file.splits option.splits)

theorem close_ticket_without_record_witness:
  "has_required_role (user_roles gerente_in_ticket_channel)
   \<and> startswith (channel_name gerente_in_ticket_channel) ticket_prefix
   \<and> map_of (fst (load_tickets fresh_world)) (str_int (channel_id gerente_in_ticket_channel)) = None
   \<and> close_ticket WriteOk ''2025-01-01T10:00:00'' [] gerente_in_ticket_channel fresh_world
       = ([Reply TicketNotFound True], fresh_world)
   \<and> map_of (fst (load_tickets tickets_world)) (str_int (channel_id gerente_in_ticket_channel))
       = None
   \<and> close_ticket WriteOk ''2025-01-01T10:00:00'' [] gerente_in_ticket_channel tickets_world
       = ([Reply TicketNotFound True], tickets_world\<lparr>ticket_counter := 1\<rparr>)"
proof -
  have h1: "has_required_role (user_roles gerente_in_ticket_channel)" by code_simp
  have h2: "startswith (channel_name gerente_in_ticket_channel) ticket_prefix" by code_simp
  have h3: "map_of (fst (load_tickets fresh_world))
              (str_int (channel_id gerente_in_ticket_channel)) = None"
    by (simp add: load_tickets_def fresh_world_def)
  have h4: "map_of (fst (load_tickets tickets_world))
              (str_int (channel_id gerente_in_ticket_channel)) = None"
    by code_simp
  have c: "ticket_counter (snd (load_tickets tickets_world)) = 1" by code_simp
  have a: "close_ticket WriteOk ''2025-01-01T10:00:00'' [] gerente_in_ticket_channel fresh_world
       = ([Reply TicketNotFound True], fresh_world)"
    using close_ticket_without_record[OF h1 h2 h3, of WriteOk "''2025-01-01T10:00:00''" "[]"]
    by (simp add: load_tickets_def fresh_world_def)
  have b: "close_ticket WriteOk ''2025-01-01T10:00:00'' [] gerente_in_ticket_channel tickets_world
       = ([Reply TicketNotFound True], tickets_world\<lparr>ticket_counter := 1\<rparr>)"
    using close_ticket_without_record[OF h1 h2 h4, of WriteOk "''2025-01-01T10:00:00''" "[]"] c
    by simp
  from h1 h2 h3 h4 a b show ?thesis by blast
qed

text \<open>
  Claim C1, at the failing input. Three tickets created one after the other, starting with no
  tickets file, get the numbers 1, 2 and 2, and the stored counter stays at 1: \<open>create_ticket\<close>
  increments the counter and then calls \<open>load_tickets\<close>, which sets the counter back to the
  stored value before \<open>save_tickets\<close> writes it. A ticket created after a restart that
  follows the first ticket gets the number 1 again.
\<close>

theorem create_ticket_repeats_number:
  "(case create_ticket WriteOk ''t1'' (Some 101) ana ''ayuda'' fresh_world of (out1, w1) \<Rightarrow>
      case create_ticket WriteOk ''t2'' (Some 102) ana ''ayuda'' w1 of (out2, w2) \<Rightarrow>
      case create_ticket WriteOk ''t3'' (Some 103) ana ''ayuda'' w2 of (out3, w3) \<Rightarrow>
        (last out1, last out2, last out3,
         map (ticket_number \<circ> snd) (fst (load_tickets w3)), ticket_counter w3))
     = (Reply (TicketCreated 1 101) True, Reply (TicketCreated 2 102) True,
        Reply (TicketCreated 2 103) True, [1, 2, 2], 1)
   \<and> (case create_ticket WriteOk ''t1'' (Some 101) ana ''ayuda'' fresh_world of (out1, w1) \<Rightarrow>
        case create_ticket WriteOk ''t2'' (Some 102) ana ''ayuda'' (restart py_int w1) of (out2, w2) \<Rightarrow>
          (last out1, last out2, map (ticket_number \<circ> snd) (fst (load_tickets w2))))
     = (Reply (TicketCreated 1 101) True, Reply (TicketCreated 1 102) True, [1, 1])"
  by code_simp

section \<open>Properties of the stored record sets\<close>

text \<open>
  Claim C2, counterexample. A save of the strikes that is interrupted during the dump does not
  leave the previous snapshot: the file that held one strike of user 42 now holds an
  incomplete document, and loading it gives the empty default.
\<close>

theorem save_strikes_interrupted_counterexample:
  "strikes_file (save_strikes DumpFails [(''42'', [spam_strike, spam_strike])] strikes_world)
     \<noteq> strikes_file strikes_world
   \<and> load_strikes (save_strikes DumpFails [(''42'', [spam_strike, spam_strike])] strikes_world)
     \<noteq> load_strikes strikes_world"
  by (simp add: save_strikes_def load_strikes_def strikes_world_def fresh_world_def)

text \<open>
  Claim C2, amended. Every save (counters, strikes, suggestions, tickets) writes into the
  stored file itself; there is no temporary location. A save that completes leaves the new
  content; a save whose \<^verbatim>\<open>open\<close> fails leaves the file as it was; a save interrupted during the
  dump leaves an incomplete document in place of the previous snapshot, and the loaders read
  such a file as the empty default.
\<close>

theorem save_writes_in_place:
  "counter_file (save_counters WriteOk w)
     = Intact (map (\<lambda>(k, v). (str_int k, v)) (message_counters w))
   \<and> counter_file (save_counters OpenFails w) = counter_file w
   \<and> counter_file (save_counters DumpFails w)
     = Partial (map (\<lambda>(k, v). (str_int k, v)) (message_counters w))
   \<and> message_counters (load_counters py_int (save_counters DumpFails w)) = []
   \<and> strikes_file (save_strikes WriteOk strikes_data w) = Intact strikes_data
   \<and> strikes_file (save_strikes OpenFails strikes_data w) = strikes_file w
   \<and> strikes_file (save_strikes DumpFails strikes_data w) = Partial strikes_data
   \<and> load_strikes (save_strikes DumpFails strikes_data w) = []
   \<and> suggestions_file (save_suggestions WriteOk suggestions_data w) = Intact suggestions_data
   \<and> suggestions_file (save_suggestions OpenFails suggestions_data w) = suggestions_file w
   \<and> suggestions_file (save_suggestions DumpFails suggestions_data w) = Partial suggestions_data
   \<and> load_suggestions (save_suggestions DumpFails suggestions_data w) = []
   \<and> tickets_file (save_tickets WriteOk tickets_data w)
     = Intact \<lparr>json_counter = Some (ticket_counter w), json_tickets = Some tickets_data\<rparr>
   \<and> tickets_file (save_tickets OpenFails tickets_data w) = tickets_file w
   \<and> tickets_file (save_tickets DumpFails tickets_data w)
     = Partial \<lparr>json_counter = Some (ticket_counter w), json_tickets = Some tickets_data\<rparr>
   \<and> fst (load_tickets (save_tickets DumpFails tickets_data w)) = []"
  by (simp add: save_counters_def save_strikes_def save_suggestions_def save_tickets_def
      load_counters_def load_strikes_def load_suggestions_def load_tickets_def)

theorem save_writes_in_place_witness:
  "strikes_file (save_strikes WriteOk [(''42'', [])] strikes_world) = Intact [(''42'', [])]
   \<and> strikes_file (save_strikes OpenFails [(''42'', [])] strikes_world)
       = Intact [(''42'', [spam_strike])]
   \<and> strikes_file (save_strikes DumpFails [(''42'', [])] strikes_world) = Partial [(''42'', [])]
   \<and> load_strikes (save_strikes DumpFails [(''42'', [])] strikes_world) = []"
  using save_writes_in_place[where w = strikes_world and strikes_data = "[(''42'', [])]"]
  by (simp add: strikes_world_def fresh_world_def)

section \<open>Properties of the suggestion workflow\<close>










section \<open>Properties of the counters\<close>

lemma count_message_counted:
  assumes "msg_channel_name m \<noteq> None"
  shows "count_message cfg io m w =
     (if dict_get_default (message_counters w) (msg_channel_id m) 0 + 1 \<ge> MESSAGE_THRESHOLD cfg
      then ([Send (msg_channel_id m) ReminderMessage], True,
            w\<lparr>message_counters := AList.update (msg_channel_id m)
                 (dict_get_default (message_counters w) (msg_channel_id m) 0 + 1)
                 (message_counters w)\<rparr>)
      else ([], False,
            save_counters io (w\<lparr>message_counters := AList.update (msg_channel_id m)
                 (dict_get_default (message_counters w) (msg_channel_id m) 0 + 1)
                 (message_counters w)\<rparr>)))"
  using assms by (auto simp: count_message_def Let_def)

lemma on_message_begin_counted:
  assumes "counted cfg m"
  shows "on_message_begin cfg io m w =
     (if dict_get_default (message_counters w) (msg_channel_id m) 0 + 1 \<ge> MESSAGE_THRESHOLD cfg
      then ([Send (msg_channel_id m) ReminderMessage], True,
            w\<lparr>message_counters := AList.update (msg_channel_id m)
                 (dict_get_default (message_counters w) (msg_channel_id m) 0 + 1)
                 (message_counters w)\<rparr>)
      else ([], False,
            save_counters io (w\<lparr>message_counters := AList.update (msg_channel_id m)
                 (dict_get_default (message_counters w) (msg_channel_id m) 0 + 1)
                 (message_counters w)\<rparr>)))"
proof -
  from assms have name: "msg_channel_name m \<noteq> None" by (simp add: counted_def)
  from assms have "on_message_begin cfg io m w = count_message cfg io m w"
    by (auto simp: counted_def on_message_begin_def test_commands_def Let_def
        split: option.splits)
  then show ?thesis by (simp only: count_message_counted[OF name])
qed

lemma on_message_counted:
  assumes "0 < MESSAGE_THRESHOLD cfg" and "counted cfg m"
  shows "case on_message cfg io m w of (sent, w') \<Rightarrow>
     dict_get_default (message_counters w') (msg_channel_id m) 0 < MESSAGE_THRESHOLD cfg
   \<and> dict_get_default (message_counters w') (msg_channel_id m) 0 =
       (if dict_get_default (message_counters w) (msg_channel_id m) 0 + 1 \<ge> MESSAGE_THRESHOLD cfg
        then 0 else dict_get_default (message_counters w) (msg_channel_id m) 0 + 1)
   \<and> sent =
       (if dict_get_default (message_counters w) (msg_channel_id m) 0 + 1 \<ge> MESSAGE_THRESHOLD cfg
        then [Send (msg_channel_id m) ReminderMessage] else [])
   \<and> counter_file w' =
       write_json io (map (\<lambda>(k, v). (str_int k, v)) (message_counters w')) (counter_file w)
   \<and> (case on_message_begin cfg io m w of
        (sent0, waits, w0) \<Rightarrow>
          waits = (dict_get_default (message_counters w) (msg_channel_id m) 0 + 1
                   \<ge> MESSAGE_THRESHOLD cfg)
        \<and> (if waits then counter_file w0 = counter_file w else w0 = w'))"
  using assms(1)
  by (auto simp: on_message_def on_message_begin_counted[OF assms(2)] finish_reminder_def
      save_counters_def dict_get_default_def update_conv')

text \<open>
  Claim C6. For a positive threshold, after \<open>on_message\<close> has handled a counted message of the
  monitored channel, that channel's counter is below the threshold: the handler adds one to the
  counter; when the new value reaches the threshold it sends the reminder and the counter is
  zero, otherwise it sends nothing; and the counters file is written once, with the final
  value: on the way to the reminder nothing is written before the handler waits in
  \<open>send_reminder\<close>, and the reset and the write come together afterwards.
\<close>

theorem on_message_counter_below_threshold:
  assumes "0 < MESSAGE_THRESHOLD cfg" and "counted cfg m"
  shows "case on_message cfg io m w of (sent, w') \<Rightarrow>
     dict_get_default (message_counters w') (msg_channel_id m) 0 < MESSAGE_THRESHOLD cfg
   \<and> dict_get_default (message_counters w') (msg_channel_id m) 0 =
       (if dict_get_default (message_counters w) (msg_channel_id m) 0 + 1 \<ge> MESSAGE_THRESHOLD cfg
        then 0 else dict_get_default (message_counters w) (msg_channel_id m) 0 + 1)
   \<and> sent =
       (if dict_get_default (message_counters w) (msg_channel_id m) 0 + 1 \<ge> MESSAGE_THRESHOLD cfg
        then [Send (msg_channel_id m) ReminderMessage] else [])
   \<and> counter_file w' =
       write_json io (map (\<lambda>(k, v). (str_int k, v)) (message_counters w')) (counter_file w)
   \<and> (case on_message_begin cfg io m w of
        (sent0, waits, w0) \<Rightarrow>
          waits = (dict_get_default (message_counters w) (msg_channel_id m) 0 + 1
                   \<ge> MESSAGE_THRESHOLD cfg)
        \<and> (if waits then counter_file w0 = counter_file w else w0 = w'))"
  using assms by (rule on_message_counted)

theorem on_message_counter_below_threshold_witness:
  "0 < MESSAGE_THRESHOLD suggestions_config \<and> counted suggestions_config (chat_message 2)
   \<and> on_message suggestions_config WriteOk (chat_message 2)
        (fresh_world\<lparr>message_counters := [(1, 1)]\<rparr>)
     = ([Send 1 ReminderMessage],
        fresh_world\<lparr>message_counters := [(1, 0)], counter_file := Intact [(''1'', 0)]\<rparr>)
   \<and> on_message suggestions_config WriteOk (chat_message 1) fresh_world
     = ([], fresh_world\<lparr>message_counters := [(1, 1)], counter_file := Intact [(''1'', 1)]\<rparr>)"
proof -
  have h1: "0 < MESSAGE_THRESHOLD suggestions_config" by (simp add: suggestions_config_def)
  have h2: "counted suggestions_config (chat_message 2)" by code_simp
  have a: "on_message suggestions_config WriteOk (chat_message 2)
        (fresh_world\<lparr>message_counters := [(1, 1)]\<rparr>)
     = ([Send 1 ReminderMessage],
        fresh_world\<lparr>message_counters := [(1, 0)], counter_file := Intact [(''1'', 0)]\<rparr>)"
    by code_simp
  have b: "on_message suggestions_config WriteOk (chat_message 1) fresh_world
     = ([], fresh_world\<lparr>message_counters := [(1, 1)], counter_file := Intact [(''1'', 1)]\<rparr>)"
    by code_simp
  from on_message_counter_below_threshold[OF h1 h2, where io = WriteOk
         and w = "fresh_world\<lparr>message_counters := [(1, 1)]\<rparr>"]
  show ?thesis using h1 h2 a b by simp
qed

lemma count_list_append: "count_list (xs @ ys) x = count_list xs x + count_list ys x"
  by (induction xs) auto

text \<open>
  Handled one after the other, \<open>n\<close> counted messages of one channel whose counter starts at
  \<open>c\<close> below the threshold \<open>T\<close> send the reminder \<open>(c + n) div T\<close> times.
\<close>

lemma sequential_reminders:
  assumes "0 < MESSAGE_THRESHOLD cfg"
    and "\<forall>m\<in>set ms. counted cfg m \<and> msg_channel_id m = ch"
    and "0 \<le> dict_get_default (message_counters w) ch 0"
    and "dict_get_default (message_counters w) ch 0 < MESSAGE_THRESHOLD cfg"
  shows "int (count_list (fst (process_messages cfg io ms w)) (Send ch ReminderMessage))
         = (dict_get_default (message_counters w) ch 0 + int (length ms)) div MESSAGE_THRESHOLD cfg"
  using assms
proof (induction ms arbitrary: w)
  case Nil
  then show ?case by simp
next
  case (Cons m ms)
  define T where "T = MESSAGE_THRESHOLD cfg"
  define c where "c = dict_get_default (message_counters w) ch 0"
  obtain sent w1 where om: "on_message cfg io m w = (sent, w1)" by (cases "on_message cfg io m w")
  obtain sent' w2 where pm: "process_messages cfg io ms w1 = (sent', w2)"
    by (cases "process_messages cfg io ms w1")
  from Cons.prems have m: "counted cfg m" "msg_channel_id m = ch" by simp_all
  from on_message_counted[OF Cons.prems(1) m(1), where io = io and w = w] om m(2)
  have c1: "dict_get_default (message_counters w1) ch 0 = (if c + 1 \<ge> T then 0 else c + 1)"
    and lt: "dict_get_default (message_counters w1) ch 0 < T"
    and s: "sent = (if c + 1 \<ge> T then [Send ch ReminderMessage] else [])"
    by (simp_all add: T_def c_def)
  from Cons.prems have c0: "0 \<le> c" "c < T" "0 < T" by (simp_all add: T_def c_def)
  have ge: "0 \<le> dict_get_default (message_counters w1) ch 0" using c1 c0 by simp
  from Cons.IH[of w1] Cons.prems(1,2) ge lt pm
  have ih: "int (count_list sent' (Send ch ReminderMessage))
            = (dict_get_default (message_counters w1) ch 0 + int (length ms)) div T"
    by (simp add: T_def)
  have "int (count_list (sent @ sent') (Send ch ReminderMessage)) = (c + int (length (m # ms))) div T"
  proof (cases "c + 1 \<ge> T")
    case True
    with c0 have eq: "c + int (length (m # ms)) = T + int (length ms)" by simp
    have "int (count_list (sent @ sent') (Send ch ReminderMessage)) = 1 + int (length ms) div T"
      using True s ih c1 by (simp add: count_list_append)
    also have "\<dots> = (T + int (length ms)) div T"
    proof -
      from c0 have "T \<noteq> 0" by simp
      then show ?thesis by (simp add: div_add_self1)
    qed
    finally show ?thesis by (simp only: eq)
  next
    case False
    then show ?thesis using s ih c1 by (simp add: count_list_append algebra_simps)
  qed
  then show ?case using om pm by (simp add: T_def c_def)
qed

text \<open>
  With handlers interleaved, the counter of the monitored channel is below the threshold
  whenever no handler waits in \<open>send_reminder\<close>.
\<close>

lemma run_handlers_at_rest:
  assumes "0 < MESSAGE_THRESHOLD cfg" and "CHANNEL_ID cfg = Some ch"
    and "\<forall>s\<in>set steps. case s of Arrives m \<Rightarrow> counted cfg m | Resumes m \<Rightarrow> msg_channel_id m = ch"
    and "run_handlers cfg io steps (waiting, sent, w) = Some (waiting', sent', w')"
    and "waiting \<noteq> [] \<or> dict_get_default (message_counters w) ch 0 < MESSAGE_THRESHOLD cfg"
  shows "waiting' \<noteq> [] \<or> dict_get_default (message_counters w') ch 0 < MESSAGE_THRESHOLD cfg"
  using assms
proof (induction steps arbitrary: waiting sent w)
  case Nil
  then show ?case by simp
next
  case (Cons s steps)
  show ?case
  proof (cases s)
    case (Arrives m)
    with Cons.prems have cm: "counted cfg m" by simp
    with Cons.prems(2) have ch: "msg_channel_id m = ch" by (simp add: counted_def)
    from Cons.prems(3) have rest: "\<forall>s\<in>set steps. case s of Arrives m \<Rightarrow> counted cfg m | Resumes m \<Rightarrow> msg_channel_id m = ch"
      by simp
    show ?thesis
    proof (cases "dict_get_default (message_counters w) ch 0 + 1 \<ge> MESSAGE_THRESHOLD cfg")
      case True
      with Cons.prems(4) Arrives cm ch obtain w1 where
        "run_handlers cfg io steps (waiting @ [m], sent @ [Send ch ReminderMessage], w1) = Some (waiting', sent', w')"
        by (simp add: on_message_begin_counted)
      from Cons.IH[OF Cons.prems(1,2) rest this] show ?thesis by simp
    next
      case False
      define w1 where "w1 = save_counters io (w\<lparr>message_counters := AList.update ch
                 (dict_get_default (message_counters w) ch 0 + 1) (message_counters w)\<rparr>)"
      from False Cons.prems(4) Arrives cm ch have
        r: "run_handlers cfg io steps (waiting, sent, w1) = Some (waiting', sent', w')"
        by (simp add: on_message_begin_counted w1_def)
      have "dict_get_default (message_counters w1) ch 0 < MESSAGE_THRESHOLD cfg"
        using False by (simp add: w1_def save_counters_def dict_get_default_def update_conv')
      with Cons.IH[OF Cons.prems(1,2) rest r] show ?thesis by simp
    qed
  next
    case (Resumes m)
    with Cons.prems have ch: "msg_channel_id m = ch" by simp
    from Cons.prems(3) have rest: "\<forall>s\<in>set steps. case s of Arrives m \<Rightarrow> counted cfg m | Resumes m \<Rightarrow> msg_channel_id m = ch"
      by simp
    from Cons.prems(4) Resumes have
      r: "run_handlers cfg io steps (remove1 m waiting, sent, finish_reminder io m w) = Some (waiting', sent', w')"
      by (simp split: if_splits)
    have "dict_get_default (message_counters (finish_reminder io m w)) ch 0 < MESSAGE_THRESHOLD cfg"
      using ch Cons.prems(1)
      by (simp add: finish_reminder_def save_counters_def dict_get_default_def update_conv')
    with Cons.IH[OF Cons.prems(1,2) rest r] show ?thesis by simp
  qed
qed

text \<open>
  Claim C5, at the failing input. The threshold is two and three counted messages arrive in the
  monitored channel. The handler of the second message reaches the threshold and waits in
  \<open>send_reminder\<close> with the counter still at two; the handler of the third message runs
  meanwhile, counts three and sends the reminder as well; then both are resumed and reset the
  counter. The reminder is sent twice, where \<open>3 div 2 = 1\<close>.
\<close>

theorem interleaved_handlers_send_twice:
  "map_option (\<lambda>(waiting, sent, w).
        (waiting, count_list sent (Send 1 ReminderMessage), map_of (message_counters w) 1))
     (run_handlers suggestions_config WriteOk
        [Arrives (chat_message 1), Arrives (chat_message 2), Arrives (chat_message 3),
         Resumes (chat_message 2), Resumes (chat_message 3)] ([], [], fresh_world))
   = Some ([], 2, Some 0)
   \<and> (3::int) div MESSAGE_THRESHOLD suggestions_config = 1"
  by code_simp

lemma ticket_gate_help_counter:
  "help_message_counter (snd (ticket_gate m w)) = help_message_counter w"
  by (auto simp: ticket_gate_def load_tickets_def
      split: option.splits prod.splits json_file.splits)

lemma count_message_help_counter:
  "help_message_counter (snd (snd (count_message cfg io m w))) = help_message_counter w"
  by (auto simp: count_message_def save_counters_def Let_def split: option.splits)

text \<open>
  For every message: the help counter counts the message exactly when it comes from a human,
  is no test command, is posted outside the monitored channel in a channel with a name,
  passes the ticket-channel gate and does not begin with the command prefix; it is then
  incremented, and reset when the new value reaches the threshold of ten. Every other message
  leaves it as it is.
\<close>

lemma help_counter_characterised:
  "help_message_counter (snd (on_message cfg io m w)) =
     (if \<not> msg_author_bot m \<and> py_strip (py_lower (msg_content m)) \<notin> set test_commands
         \<and> CHANNEL_ID cfg \<noteq> Some (msg_channel_id m) \<and> fst (ticket_gate m w) = GatePasses
         \<and> \<not> startswith (msg_content m) ''/'' \<and> msg_channel_name m \<noteq> None
      then (if help_message_counter w + 1 \<ge> help_message_threshold then 0
            else help_message_counter w + 1)
      else help_message_counter w)"
proof -
  obtain g w1 where g: "ticket_gate m w = (g, w1)" by (cases "ticket_gate m w")
  from g ticket_gate_help_counter[of m w]
  have h: "help_message_counter w1 = help_message_counter w" by simp
  obtain sent waits w2 where c: "count_message cfg io m w = (sent, waits, w2)"
    by (cases "count_message cfg io m w")
  from c count_message_help_counter[of cfg io m w]
  have k: "help_message_counter w2 = help_message_counter w" by simp
  show ?thesis
    using g h c k
    by (cases g)
       (auto simp: on_message_def on_message_begin_def count_help_def test_commands_def Let_def
         finish_reminder_def save_counters_def
         split: prod.splits option.splits bool.splits)
qed

text \<open>
  Claim C7, at the failing input. A text message that a human posts in the monitored
  suggestions channel does not begin with the command prefix, and \<open>on_message\<close> leaves the help
  counter as it was, at zero and also at nine, where the help message was due: the handler
  returns after the channel counter. The same text posted in another channel is counted.
\<close>

theorem help_counter_skips_monitored_channel:
  "(msg_author_bot (chat_message 1), startswith (msg_content (chat_message 1)) ''/'',
    help_message_counter
      (snd (on_message suggestions_config WriteOk (chat_message 1) fresh_world)),
    on_message suggestions_config WriteOk (chat_message 1)
      (fresh_world\<lparr>help_message_counter := 9\<rparr>),
    on_message suggestions_config WriteOk general_message
      (fresh_world\<lparr>help_message_counter := 9\<rparr>))
   = (False, False, 0,
      ([], fresh_world\<lparr>help_message_counter := 9, message_counters := [(1, 1)],
                        counter_file := Intact [(''1'', 1)]\<rparr>),
      ([Send 2 HelpMessage], fresh_world))"
  by code_simp

end
